theory Spec2Isabelle
  imports Main
begin

section \<open>Common conventions\<close>

text \<open>
  The platform modules are Python coroutines that talk to two outside parties: the host
  (Home Assistant: its data registry, dispatcher and entity platform) and a vendor client
  library. A coroutine is modelled as a function that returns its outcome together with
  the list of calls it made on those parties, in program order. An outcome is a sum:
  \<open>Inl\<close> is the exception that leaves the coroutine, \<open>Inr\<close> the returned value.
\<close>

datatype 'e exn =
    KeyError string
  | ValueError
  | Raised 'e

text \<open>
  \<open>KeyError\<close> and \<open>ValueError\<close> are raised by the module's own dictionary lookups and
  tuple unpacking; \<open>Raised e\<close> is an exception \<open>e\<close> raised inside a callee that the module
  awaits or calls (vendor client, host callback).
\<close>

section \<open>Nettigo Air Monitor: the restart button\<close>

text \<open>
  \<^verbatim>\<open>homeassistant/components/nam/button.py\<close>. The names \<open>DEFAULT_NAME\<close> and \<open>DOMAIN\<close>
  come from the package's \<open>const\<close> module, \<open>ButtonDeviceClass.RESTART\<close> and
  \<open>ENTITY_CATEGORY_CONFIG\<close> from the host; they are parameters of the model.
\<close>

record nam_names =
  DEFAULT_NAME :: string
  DOMAIN :: string
  ButtonDeviceClass_RESTART :: string
  ENTITY_CATEGORY_CONFIG :: string

record ButtonEntityDescription =
  key :: string
  name :: string
  device_class :: string
  entity_category :: string

definition RESTART_BUTTON :: "nam_names \<Rightarrow> ButtonEntityDescription" where
  "RESTART_BUTTON c =
     \<lparr> key = ''restart'',
       name = DEFAULT_NAME c @ '' Restart'',
       device_class = ButtonDeviceClass_RESTART c,
       entity_category = ENTITY_CATEGORY_CONFIG c \<rparr>"

text \<open>
  The coordinator as far as the module reads it: the vendor client \<open>nam\<close> (a handle of
  type \<open>'nam\<close>), the device information and the unique id.
\<close>

record ('nam, 'dev) NAMDataUpdateCoordinator =
  nam :: 'nam
  device_info :: 'dev
  unique_id :: string

record ('nam, 'dev) NAMButton =
  coordinator :: "('nam, 'dev) NAMDataUpdateCoordinator"
  attr_device_info :: 'dev
  attr_unique_id :: string
  entity_description :: ButtonEntityDescription

text \<open>\<^verbatim>\<open>NAMButton.__init__\<close>\<close>

definition NAMButton_init ::
  "('nam, 'dev) NAMDataUpdateCoordinator \<Rightarrow> ButtonEntityDescription \<Rightarrow> ('nam, 'dev) NAMButton"
where
  "NAMButton_init coord description =
     \<lparr> coordinator = coord,
       attr_device_info = device_info coord,
       attr_unique_id = unique_id coord @ ''-'' @ key description,
       entity_description = description \<rparr>"

text \<open>
  What a coroutine of the module does to the outside: awaiting a method of a vendor client
  with a list of arguments, or handing entities to the host.
\<close>

datatype ('nam, 'dev) nam_effect =
    Vendor_await 'nam string "string list"
  | Add_entities "('nam, 'dev) NAMButton list" bool

text \<open>
  \<^verbatim>\<open>
  async def async_press(self) -> None:
      await self.coordinator.nam.async_restart()
  \<close>
  The vendor method is outside the module: \<open>async_restart c\<close> says what awaiting it on the
  client \<open>c\<close> does, \<open>None\<close> when it returns and \<open>Some e\<close> when it raises \<open>e\<close>. The
  coroutine has no handler, so the exception leaves it.
\<close>

definition async_press ::
  "('nam \<Rightarrow> 'e option) \<Rightarrow> ('nam, 'dev) NAMButton \<Rightarrow> ('e exn + unit) \<times> ('nam, 'dev) nam_effect list"
where
  "async_press async_restart self =
     (let client = nam (coordinator self) in
      (case async_restart client of
         None \<Rightarrow> Inr ()
       | Some e \<Rightarrow> Inl (Raised e),
       [Vendor_await client ''async_restart'' []]))"

text \<open>
  \<^verbatim>\<open>
  async def async_setup_entry(hass, entry, async_add_entities):
      coordinator = hass.data[DOMAIN][entry.entry_id]
      buttons = []
      buttons.append(NAMButton(coordinator, RESTART_BUTTON))
      async_add_entities(buttons, False)
  \<close>
  \<open>hass.data\<close> is a dictionary of dictionaries; each subscript raises \<open>KeyError\<close> on a
  missing key.
\<close>

definition async_setup_entry ::
  "nam_names \<Rightarrow> (string \<rightharpoonup> (string \<rightharpoonup> ('nam, 'dev) NAMDataUpdateCoordinator)) \<Rightarrow> string
     \<Rightarrow> ('e exn + unit) \<times> ('nam, 'dev) nam_effect list"
where
  "async_setup_entry c hass_data entry_id =
     (case hass_data (DOMAIN c) of
        None \<Rightarrow> (Inl (KeyError (DOMAIN c)), [])
      | Some entries \<Rightarrow>
          (case entries entry_id of
             None \<Rightarrow> (Inl (KeyError entry_id), [])
           | Some coord \<Rightarrow>
               (Inr (), [Add_entities [NAMButton_init coord (RESTART_BUTTON c)] False])))"

section \<open>Volvo On Call: the device tracker\<close>

text \<open>
  \<^verbatim>\<open>homeassistant/components/volvooncall/device_tracker.py\<close>. \<open>DATA_KEY\<close> and
  \<open>SIGNAL_STATE_UPDATED\<close> come from the package, \<open>SOURCE_TYPE_GPS\<close> and \<open>slugify\<close> from
  the host; they are parameters of the model.
\<close>

record volvo_names =
  DATA_KEY :: string
  SIGNAL_STATE_UPDATED :: string
  SOURCE_TYPE_GPS :: string
  slugify :: "string \<Rightarrow> string"

text \<open>
  An instrument is an object of the vendor library whose attributes change over time: the
  module holds a reference \<open>'i\<close> to it, and the attributes are read from the current
  vendor state, a function from references to the values below.
\<close>

record 'g instrument_attrs =
  vehicle_name :: string
  state :: 'g

text \<open>The keyword arguments of one call of the host's \<open>async_see\<close>.\<close>

record 'g see_args =
  dev_id :: string
  host_name :: string
  source_type :: string
  gps :: 'g
  icon :: string

text \<open>
  The closure \<open>see_vehicle\<close> captures the instrument and the \<open>async_see\<close> it was set up
  with. \<open>async_see\<close> is the host's coroutine: \<open>None\<close> when it returns, \<open>Some e\<close> when it
  raises.
\<close>

datatype ('i, 'g, 'e) callback =
  See_vehicle 'i "'g see_args \<Rightarrow> 'e option"

datatype ('i, 'g, 'e) volvo_effect =
    Read_hass_data string
  | Data_instrument string string string string
  | Dispatcher_connect string "('i, 'g, 'e) callback"
  | Async_see "'g see_args"

text \<open>
  \<^verbatim>\<open>
  async def see_vehicle():
      host_name = instrument.vehicle_name
      dev_id = f"volvo_{slugify(host_name)}"
      await async_see(dev_id=dev_id, host_name=host_name,
                      source_type=SOURCE_TYPE_GPS, gps=instrument.state, icon="mdi:car")
  \<close>
\<close>

definition see_vehicle ::
  "volvo_names \<Rightarrow> ('i \<Rightarrow> 'g instrument_attrs) \<Rightarrow> 'i \<Rightarrow> ('g see_args \<Rightarrow> 'e option)
     \<Rightarrow> ('e exn + unit) \<times> ('i, 'g, 'e) volvo_effect list"
where
  "see_vehicle c vendor instrument async_see =
     (let host_name = vehicle_name (vendor instrument);
          dev_id = ''volvo_'' @ slugify c host_name;
          kwargs = \<lparr> dev_id = dev_id, host_name = host_name,
                     source_type = SOURCE_TYPE_GPS c,
                     gps = state (vendor instrument), icon = ''mdi:car'' \<rparr>
      in (case async_see kwargs of None \<Rightarrow> Inr () | Some e \<Rightarrow> Inl (Raised e),
          [Async_see kwargs]))"

text \<open>What the dispatcher does when it fires a registered callback.\<close>

fun invoke ::
  "volvo_names \<Rightarrow> ('i \<Rightarrow> 'g instrument_attrs) \<Rightarrow> ('i, 'g, 'e) callback
     \<Rightarrow> ('e exn + unit) \<times> ('i, 'g, 'e) volvo_effect list"
where
  "invoke c vendor (See_vehicle instrument async_see) = see_vehicle c vendor instrument async_see"

text \<open>
  \<^verbatim>\<open>
  async def async_setup_scanner(hass, config, async_see, discovery_info=None):
      if discovery_info is None:
          return
      vin, component, attr, slug_attr = discovery_info
      data = hass.data[DATA_KEY]
      instrument = data.instrument(vin, component, attr, slug_attr)
      async def see_vehicle(): ...
      async_dispatcher_connect(hass, SIGNAL_STATE_UPDATED, see_vehicle)
      return True
  \<close>
  \<open>discovery_info\<close> is \<open>None\<close> or a sequence; unpacking it into four names raises
  \<open>ValueError\<close> unless it has exactly four items. \<open>hass.data\<close> is a dictionary. The
  method \<open>data.instrument\<close> belongs to the package's data object, which is outside this
  module: \<open>lookup\<close> says what it returns or raises. A bare \<open>return\<close> gives \<open>None\<close>, so the
  returned value is a \<open>bool option\<close>. The \<open>config\<close> argument is never used.
\<close>

definition async_setup_scanner ::
  "volvo_names \<Rightarrow> ('d \<Rightarrow> string \<Rightarrow> string \<Rightarrow> string \<Rightarrow> string \<Rightarrow> 'e + 'i) \<Rightarrow> (string \<rightharpoonup> 'd)
     \<Rightarrow> 'cfg \<Rightarrow> ('g see_args \<Rightarrow> 'e option) \<Rightarrow> string list option
     \<Rightarrow> ('e exn + bool option) \<times> ('i, 'g, 'e) volvo_effect list"
where
  "async_setup_scanner c lookup hass_data config async_see discovery_info =
     (case discovery_info of
        None \<Rightarrow> (Inr None, [])
      | Some info \<Rightarrow>
          (case info of
             [vin, component, attr, slug_attr] \<Rightarrow>
               (case hass_data (DATA_KEY c) of
                  None \<Rightarrow> (Inl (KeyError (DATA_KEY c)), [Read_hass_data (DATA_KEY c)])
                | Some data \<Rightarrow>
                    (case lookup data vin component attr slug_attr of
                       Inl e \<Rightarrow>
                         (Inl (Raised e),
                          [Read_hass_data (DATA_KEY c),
                           Data_instrument vin component attr slug_attr])
                     | Inr instrument \<Rightarrow>
                         (Inr (Some True),
                          [Read_hass_data (DATA_KEY c),
                           Data_instrument vin component attr slug_attr,
                           Dispatcher_connect (SIGNAL_STATE_UPDATED c)
                             (See_vehicle instrument async_see)])))
           | _ \<Rightarrow> (Inl ValueError, [])))"

section \<open>DLNA digital media renderer: connection bookkeeping\<close>

text \<open>
  Modelled from the spec: the entity's module
  \<^verbatim>\<open>homeassistant/components/dlna_dmr/media_player.py\<close> is not among the sources, only its
  test-suite \<^verbatim>\<open>tests/components/dlna_dmr/test_media_player.py\<close> is. The specification
  names the logic, "tracking SSDP boot-ID sequence numbers to decide whether to resubscribe
  to UPnP eventing" and "catching vendor-SDK exceptions and marking entities unavailable";
  the rules below are the ones the claims spell out and the test-suite observes through
  its mocks. Every call the tests count on a mock is a call recorded here:
  \<open>async_create_device\<close>, \<open>async_get_event_notifier\<close>, \<open>async_release_event_notifier\<close>,
  \<open>async_subscribe_services\<close>, \<open>async_unsubscribe_services\<close>, the device's
  \<open>async_update\<close> and service methods, the two registrations with the SSDP scanner and
  their unregister functions, and the config entry's update listener.
\<close>

text \<open>
  Modelled from the spec: the exceptions of the UPnP client library that the tests raise
  from the mocks. \<open>UpnpConnectionError\<close> and \<open>UpnpResponseError\<close> are kinds of
  \<open>UpnpError\<close>.
\<close>

datatype upnp_error = UpnpError | UpnpConnectionError | UpnpResponseError

text \<open>
  Modelled from the spec: what the outside does at one moment, that is the side effects
  and attributes the tests set on the mocks. \<open>None\<close> is a call that returns, \<open>Some err\<close>
  one that raises \<open>err\<close>. \<open>create_device url\<close>: the device factory asked for \<open>url\<close>;
  \<open>subscribe_services\<close>: the subscription request; \<open>device_update\<close>: the device's
  \<open>async_update\<close>; \<open>device_call\<close>: the device method behind a service call;
  \<open>profile_available\<close>: the attribute \<open>profile_device.available\<close>.
\<close>

record upnp_world =
  create_device :: "string \<Rightarrow> upnp_error option"
  subscribe_services :: "upnp_error option"
  device_update :: "upnp_error option"
  device_call :: "upnp_error option"
  profile_available :: bool

text \<open>
  The calls made on the outside. A subscription request is recorded with what it did, an
  update of the device with its \<open>do_ping\<close> argument.
\<close>

datatype dlna_effect =
    Add_update_listener
  | Remove_update_listener
  | Register_ssdp_callback
  | Unregister_ssdp_callback
  | Create_device string
  | Get_event_notifier
  | Release_event_notifier
  | Subscribe_services "upnp_error option"
  | Unsubscribe_services
  | Device_update bool
  | Device_call

text \<open>
  Modelled from the spec: a subscription request establishes the connection when it
  returns, and also when the device rejects it with \<open>UpnpResponseError\<close>
  (\<open>test_event_subscribe_rejected\<close>: the entity is connected, its state is then polled);
  any other error aborts the connection (\<open>test_event_subscribe_failure\<close>).
\<close>

fun established :: "upnp_error option \<Rightarrow> bool" where
  "established None = True"
| "established (Some UpnpResponseError) = True"
| "established (Some UpnpError) = False"
| "established (Some UpnpConnectionError) = False"

text \<open>
  \<open>is_subscribe\<close>: the call is a subscription request (what the tests count as
  \<open>async_subscribe_services.await_count\<close>); \<open>is_connection\<close>: it is one that established
  a connection.
\<close>

fun is_subscribe :: "dlna_effect \<Rightarrow> bool" where
  "is_subscribe (Subscribe_services outcome) = True"
| "is_subscribe other = False"

fun is_connection :: "dlna_effect \<Rightarrow> bool" where
  "is_connection (Subscribe_services outcome) = established outcome"
| "is_connection other = False"

text \<open>
  Modelled from the spec: the two SSDP header names the claims use, as the tests pass them
  (\<open>ssdp.ATTR_SSDP_BOOTID\<close>, \<open>ssdp.ATTR_SSDP_NEXTBOOTID\<close>).
\<close>

definition ATTR_SSDP_BOOTID :: string where
  "ATTR_SSDP_BOOTID = ''BOOTID.UPNP.ORG''"

definition ATTR_SSDP_NEXTBOOTID :: string where
  "ATTR_SSDP_NEXTBOOTID = ''NEXTBOOTID.UPNP.ORG''"

text \<open>
  Modelled from the spec: a boot ID is a sequence number carried as header text. A header
  value is numeric when it is a non-empty string of decimal digits; any other text (the
  tests send a UUID) and a missing header give no number.
\<close>

definition digit :: "char \<Rightarrow> nat option" where
  "digit ch =
     (let n = (of_char ch :: nat) in if 48 \<le> n \<and> n \<le> 57 then Some (n - 48) else None)"

fun digits_value :: "nat \<Rightarrow> string \<Rightarrow> nat option" where
  "digits_value acc [] = Some acc"
| "digits_value acc (ch # rest) =
     (case digit ch of None \<Rightarrow> None | Some d \<Rightarrow> digits_value (10 * acc + d) rest)"

definition int_base10 :: "string \<Rightarrow> int option" where
  "int_base10 s = (if s = [] then None else map_option int (digits_value 0 s))"

type_synonym ssdp_headers = "string \<rightharpoonup> string"

definition header_int :: "ssdp_headers \<Rightarrow> string \<Rightarrow> int option" where
  "header_int headers field =
     (case headers field of None \<Rightarrow> None | Some text \<Rightarrow> int_base10 text)"

text \<open>
  Modelled from the spec: the three kinds of notification the SSDP callback receives
  (\<open>ssdp:alive\<close>, \<open>ssdp:update\<close>, \<open>ssdp:byebye\<close>), each with its headers; an alive
  notification also carries the location the device announces.
\<close>

datatype notification =
    Alive string ssdp_headers
  | Update ssdp_headers
  | Byebye ssdp_headers

text \<open>
  Modelled from the spec: the options of the config entry that the tests set
  (\<open>CONF_LISTEN_PORT\<close>, \<open>CONF_CALLBACK_URL_OVERRIDE\<close>, \<open>CONF_POLL_AVAILABILITY\<close>).
\<close>

record entry_options =
  opt_listen_port :: nat
  opt_callback_url :: "string option"
  opt_poll_availability :: bool

text \<open>
  Modelled from the spec: what the entity keeps. \<open>connected\<close>: it holds a device
  connection; \<open>on_event\<close>: the device's event handler is set (the tests read
  \<open>dmr_device_mock.on_event\<close>); \<open>bootid\<close>: the boot ID last recorded for the device, if
  any; \<open>location\<close>: the last known URL of the device; \<open>check_available\<close>: the device is
  flagged for an availability check (the next update pings it); \<open>poll_availability\<close>,
  \<open>listen_port\<close>, \<open>callback_url\<close>: the options in force.
\<close>

record DlnaDmrEntity =
  location :: string
  connected :: bool
  on_event :: bool
  bootid :: "int option"
  check_available :: bool
  poll_availability :: bool
  listen_port :: nat
  callback_url :: "string option"

definition DlnaDmrEntity_init :: "string \<Rightarrow> entry_options \<Rightarrow> DlnaDmrEntity" where
  "DlnaDmrEntity_init url opts =
     \<lparr> location = url, connected = False, on_event = False, bootid = None,
       check_available = False, poll_availability = opt_poll_availability opts,
       listen_port = opt_listen_port opts, callback_url = opt_callback_url opts \<rparr>"

text \<open>
  Modelled from the spec: the entity is available when it is connected and the device
  reports itself available. The tests read the state \<open>unavailable\<close> for a disconnected
  entity, and also for a connected one whose \<open>profile_device.available\<close> is false
  (\<open>test_available_device\<close>).
\<close>

definition available :: "upnp_world \<Rightarrow> DlnaDmrEntity \<Rightarrow> bool" where
  "available world self = (connected self \<and> profile_available world)"

text \<open>
  Modelled from the spec: connecting (the tests call it \<open>_device_connect\<close>). Nothing
  happens when a device is already connected. Otherwise the UPnP device is created from
  the URL; when that raises, nothing else is contacted and the error is handed to the
  caller (\<open>test_unavailable_device\<close>: the event notifier is not acquired). Then the
  event notifier is acquired, the event handler is set and the services are subscribed
  (\<open>test_setup_entry_no_options\<close>). When the request establishes the connection the
  entity is connected. When it fails the connection is aborted: the entity stays
  disconnected with no event handler, nothing is unsubscribed
  (\<open>test_event_subscribe_failure\<close>), the event notifier is given back (the claimed
  balance of acquisitions and releases), and the error is handed to the caller.
\<close>

definition device_connect ::
  "upnp_world \<Rightarrow> string \<Rightarrow> DlnaDmrEntity
     \<Rightarrow> upnp_error option \<times> DlnaDmrEntity \<times> dlna_effect list"
where
  "device_connect world url self =
     (if connected self then (None, self, [])
      else
        (case create_device world url of
           Some err \<Rightarrow> (Some err, self, [Create_device url])
         | None \<Rightarrow>
             (if established (subscribe_services world) then
                (None,
                 self\<lparr> location := url, connected := True, on_event := True \<rparr>,
                 [Create_device url, Get_event_notifier,
                  Subscribe_services (subscribe_services world)])
              else
                (subscribe_services world,
                 self\<lparr> location := url \<rparr>,
                 [Create_device url, Get_event_notifier,
                  Subscribe_services (subscribe_services world),
                  Release_event_notifier]))))"

text \<open>
  Modelled from the spec: disconnecting (\<open>_device_disconnect\<close>). Nothing happens when no
  device is connected (\<open>test_ssdp_byebye\<close>: the second byebye does nothing;
  \<open>test_unavailable_device\<close>: no notifier is released). Otherwise the event handler is
  cleared, the services of the old device are unsubscribed and the event notifier is
  released.
\<close>

definition device_disconnect :: "DlnaDmrEntity \<Rightarrow> DlnaDmrEntity \<times> dlna_effect list" where
  "device_disconnect self =
     (if \<not> connected self then (self, [])
      else (self\<lparr> connected := False, on_event := False \<rparr>,
            [Unsubscribe_services, Release_event_notifier]))"

text \<open>
  Modelled from the spec: the boot-ID check of a notification that is not an update. When a
  boot ID is recorded and the notification's boot ID differs from it, the device has
  restarted and an existing connection is dropped; the notification's boot ID becomes the
  recorded one.
\<close>

definition note_bootid :: "DlnaDmrEntity \<Rightarrow> int option \<Rightarrow> DlnaDmrEntity \<times> dlna_effect list" where
  "note_bootid self seen =
     (let (self1, calls1) =
            (if bootid self \<noteq> None \<and> bootid self \<noteq> seen then device_disconnect self
             else (self, []))
      in (self1\<lparr> bootid := seen \<rparr>, calls1))"

text \<open>
  Modelled from the spec: the SSDP callback of the entity.
  \<^item> An update announces that the boot ID is about to change. When its \<open>BOOTID.UPNP.ORG\<close>
    is the recorded boot ID and its \<open>NEXTBOOTID.UPNP.ORG\<close> is numeric, the next boot ID is
    recorded in its place, so that the alive notification that follows is not taken for a
    restart; otherwise nothing is recorded. Nothing else is done
    (\<open>test_ssdp_update_seen_bootid\<close>, \<open>test_ssdp_update_missed_bootid\<close>).
  \<^item> An alive notification goes through the boot-ID check; then, when no device is
    connected, a connection to the announced location is attempted, and an error of the
    attempt is swallowed (\<open>test_ssdp_bootid\<close>, \<open>test_become_available\<close>,
    \<open>test_alive_but_gone\<close>).
  \<^item> A byebye notification goes through the boot-ID check and disconnects
    (\<open>test_ssdp_byebye\<close>).
\<close>

definition async_ssdp_callback ::
  "upnp_world \<Rightarrow> DlnaDmrEntity \<Rightarrow> notification \<Rightarrow> DlnaDmrEntity \<times> dlna_effect list"
where
  "async_ssdp_callback world self notification =
     (case notification of
        Update headers \<Rightarrow>
          (if bootid self \<noteq> None \<and> bootid self = header_int headers ATTR_SSDP_BOOTID then
             (case header_int headers ATTR_SSDP_NEXTBOOTID of
                None \<Rightarrow> (self, [])
              | Some next_bootid \<Rightarrow> (self\<lparr> bootid := Some next_bootid \<rparr>, []))
           else (self, []))
      | Alive url headers \<Rightarrow>
          (let (self1, calls1) = note_bootid self (header_int headers ATTR_SSDP_BOOTID);
               (err, self2, calls2) =
                 (if \<not> connected self1 then device_connect world url self1
                  else (None, self1, []))
           in (self2, calls1 @ calls2))
      | Byebye headers \<Rightarrow>
          (let (self1, calls1) = note_bootid self (header_int headers ATTR_SSDP_BOOTID);
               (self2, calls2) = device_disconnect self1
           in (self2, calls1 @ calls2)))"

text \<open>
  Modelled from the spec: the update of the entity by the host (\<open>async_update\<close>). A
  disconnected entity tries to connect to its last known location only when it polls for
  availability (\<open>test_unavailable_device\<close>, \<open>test_poll_availability\<close>); an error of the
  attempt ends the update. A connected entity updates the device, pinging it when it polls
  for availability or is flagged for a check (\<open>test_setup_entry_with_options\<close>,
  \<open>test_become_unavailable\<close>, \<open>test_resubscribe_failure\<close>); when that raises, the error
  is caught and the device is disconnected (\<open>test_become_unavailable\<close>: the state is
  \<open>unavailable\<close>). The check has then been made and the flag is cleared. The first
  component of the result is the exception that leaves the coroutine.
\<close>

definition async_update ::
  "upnp_world \<Rightarrow> DlnaDmrEntity \<Rightarrow> upnp_error option \<times> DlnaDmrEntity \<times> dlna_effect list"
where
  "async_update world self =
     (let (err, self1, calls1) =
            (if \<not> connected self \<and> poll_availability self
             then device_connect world (location self) self
             else (None, self, []))
      in if \<not> connected self1 then (None, self1, calls1)
         else
           (let do_ping = (poll_availability self1 \<or> check_available self1) in
            (case device_update world of
               None \<Rightarrow>
                 (None, self1\<lparr> check_available := False \<rparr>, calls1 @ [Device_update do_ping])
             | Some raised \<Rightarrow>
                 (let (self2, calls2) = device_disconnect self1
                  in (None, self2\<lparr> check_available := False \<rparr>,
                      calls1 @ [Device_update do_ping] @ calls2)))))"

text \<open>
  Modelled from the spec: a service call, here the volume-set call of the claim's example
  (the tests treat every service method alike). An unavailable entity does nothing
  (\<open>test_unavailable_device\<close>, \<open>test_disappearing_device\<close>). Otherwise the device
  method is awaited; when it raises, the error is caught and the entity is flagged for an
  availability check, without being disconnected (\<open>test_become_unavailable\<close>: "flag that
  the device is unavailable, but not disconnect it immediately"; the state stays \<open>idle\<close>).
  The first component of the result is the exception that leaves the coroutine.
\<close>

definition async_set_volume_level ::
  "upnp_world \<Rightarrow> DlnaDmrEntity \<Rightarrow> upnp_error option \<times> DlnaDmrEntity \<times> dlna_effect list"
where
  "async_set_volume_level world self =
     (if \<not> available world self then (None, self, [])
      else
        (case device_call world of
           None \<Rightarrow> (None, self, [Device_call])
         | Some raised \<Rightarrow> (None, self\<lparr> check_available := True \<rparr>, [Device_call])))"

text \<open>
  Modelled from the spec: the update listener of the config entry. The polling option is
  taken over. When the listen port or the callback URL changes, the device is disconnected
  and connected again at its last known location, an error of the attempt being swallowed
  (\<open>test_config_update_listen_port\<close>, \<open>test_config_update_callback_url\<close>,
  \<open>test_config_update_connect_failure\<close>); otherwise the connection is left alone
  (\<open>test_config_update_poll_availability\<close>).
\<close>

definition async_config_update_listener ::
  "upnp_world \<Rightarrow> DlnaDmrEntity \<Rightarrow> entry_options \<Rightarrow> DlnaDmrEntity \<times> dlna_effect list"
where
  "async_config_update_listener world self opts =
     (let self0 = self\<lparr> poll_availability := opt_poll_availability opts \<rparr> in
      if opt_listen_port opts = listen_port self0 \<and> opt_callback_url opts = callback_url self0
      then (self0, [])
      else
        (let (self1, calls1) = device_disconnect self0;
             self2 = self1\<lparr> listen_port := opt_listen_port opts,
                            callback_url := opt_callback_url opts \<rparr>;
             (err, self3, calls3) = device_connect world (location self2) self2
         in (self3, calls1 @ calls3)))"

text \<open>
  Modelled from the spec: an event from the device reaching the handler the entity has
  set. An event without state variables tells that the subscription could not be renewed,
  and flags the entity for an availability check (\<open>test_resubscribe_failure\<close>).
\<close>

definition device_event :: "DlnaDmrEntity \<Rightarrow> bool \<Rightarrow> DlnaDmrEntity" where
  "device_event self no_state_variables =
     (if on_event self \<and> no_state_variables then self\<lparr> check_available := True \<rparr> else self)"

text \<open>
  What can happen to an entity between being added and being removed, and the events
  delivered one after the other, each with what the outside does at that moment (the tests
  change the mocks between the steps).
\<close>

datatype event =
    Ssdp notification
  | Poll
  | Volume_set
  | Config_update entry_options
  | Device_event bool

definition deliver :: "upnp_world \<Rightarrow> DlnaDmrEntity \<Rightarrow> event \<Rightarrow> DlnaDmrEntity \<times> dlna_effect list" where
  "deliver world self ev =
     (case ev of
        Ssdp notification \<Rightarrow> async_ssdp_callback world self notification
      | Poll \<Rightarrow> snd (async_update world self)
      | Volume_set \<Rightarrow> snd (async_set_volume_level world self)
      | Config_update opts \<Rightarrow> async_config_update_listener world self opts
      | Device_event no_state_variables \<Rightarrow> (device_event self no_state_variables, []))"

fun run :: "DlnaDmrEntity \<Rightarrow> (upnp_world \<times> event) list \<Rightarrow> DlnaDmrEntity \<times> dlna_effect list" where
  "run self [] = (self, [])"
| "run self ((world, ev) # rest) =
     (let (self1, calls1) = deliver world self ev;
          (self2, calls2) = run self1 rest
      in (self2, calls1 @ calls2))"

text \<open>
  Modelled from the spec: adding the entity to the host and removing it, as the two
  fixtures \<open>mock_entity_id\<close> and \<open>mock_disconnected_entity_id\<close> observe them. Adding
  registers one update listener with the config entry, tries to connect to the configured
  location (an error is swallowed) and registers two callbacks with the SSDP scanner.
  Removing takes the update listener away, calls the unregister function of both SSDP
  callbacks and disconnects.
\<close>

definition async_added_to_hass ::
  "upnp_world \<Rightarrow> DlnaDmrEntity \<Rightarrow> DlnaDmrEntity \<times> dlna_effect list"
where
  "async_added_to_hass world self =
     (let (err, self1, calls1) =
            (if \<not> connected self then device_connect world (location self) self
             else (None, self, []))
      in (self1,
          [Add_update_listener] @ calls1 @ [Register_ssdp_callback, Register_ssdp_callback]))"

definition async_remove :: "DlnaDmrEntity \<Rightarrow> DlnaDmrEntity \<times> dlna_effect list" where
  "async_remove self =
     (let (self1, calls1) = device_disconnect self
      in (self1,
          [Remove_update_listener, Unregister_ssdp_callback, Unregister_ssdp_callback] @ calls1))"

text \<open>
  The life of one entity: created for a URL and the options of its config entry, added,
  put through a list of events, removed; with all the calls made on the way.
\<close>

definition lifetime ::
  "upnp_world \<Rightarrow> string \<Rightarrow> entry_options \<Rightarrow> (upnp_world \<times> event) list
     \<Rightarrow> DlnaDmrEntity \<times> dlna_effect list"
where
  "lifetime world url opts events =
     (let (self1, calls1) = async_added_to_hass world (DlnaDmrEntity_init url opts);
          (self2, calls2) = run self1 events;
          (self3, calls3) = async_remove self2
      in (self3, calls1 @ calls2 @ calls3))"

text \<open>
  What an entity holds after the calls made so far: one event notifier more than it gave
  back, and one established connection more than it unsubscribed, exactly when it is
  connected; and the event handler set exactly then.
\<close>

definition holding :: "DlnaDmrEntity \<Rightarrow> dlna_effect list \<Rightarrow> bool" where
  "holding self calls =
     (count_list calls Get_event_notifier =
        count_list calls Release_event_notifier + (if connected self then 1 else 0) \<and>
      length (filter is_connection calls) =
        count_list calls Unsubscribe_services + (if connected self then 1 else 0) \<and>
      on_event self = connected self)"

definition bookkeeping :: "dlna_effect \<Rightarrow> bool" where
  "bookkeeping x =
     (x = Add_update_listener \<or> x = Remove_update_listener \<or>
      x = Register_ssdp_callback \<or> x = Unregister_ssdp_callback)"

text \<open>
  The values of the test-suite: the behaviours the tests give the mocks, the options of
  the default config entry, the device's URL (a fixed URL stands for the one of the test
  configuration), the notifications the tests send, and the entities of the fixtures.
\<close>

definition online :: upnp_world where
  "online =
     \<lparr> create_device = (\<lambda>url. None), subscribe_services = None, device_update = None,
       device_call = None, profile_available = True \<rparr>"

definition offline :: upnp_world where
  "offline = online\<lparr> create_device := (\<lambda>url. Some UpnpConnectionError) \<rparr>"

definition subscribe_failing :: upnp_world where
  "subscribe_failing = online\<lparr> subscribe_services := Some UpnpError \<rparr>"

definition subscribe_rejecting :: upnp_world where
  "subscribe_rejecting = online\<lparr> subscribe_services := Some UpnpResponseError \<rparr>"

definition call_failing :: upnp_world where
  "call_failing = online\<lparr> device_call := Some UpnpConnectionError \<rparr>"

definition connection_broken :: upnp_world where
  "connection_broken =
     online\<lparr> device_call := Some UpnpConnectionError, device_update := Some UpnpConnectionError \<rparr>"

definition no_options :: entry_options where
  "no_options =
     \<lparr> opt_listen_port = 0, opt_callback_url = None, opt_poll_availability = False \<rparr>"

definition MOCK_DEVICE_LOCATION :: string where
  "MOCK_DEVICE_LOCATION = ''http://192.88.99.4/dmr_description.xml''"

definition alive_with_bootid :: "string \<Rightarrow> notification" where
  "alive_with_bootid b = Alive MOCK_DEVICE_LOCATION [ATTR_SSDP_BOOTID \<mapsto> b]"

definition update_with_bootids :: "string \<Rightarrow> string \<Rightarrow> notification" where
  "update_with_bootids b n =
     Update [''NTS'' \<mapsto> ''ssdp:update'', ATTR_SSDP_BOOTID \<mapsto> b, ATTR_SSDP_NEXTBOOTID \<mapsto> n]"

definition mock_entity :: DlnaDmrEntity where
  "mock_entity =
     fst (async_added_to_hass online (DlnaDmrEntity_init MOCK_DEVICE_LOCATION no_options))"

definition mock_disconnected_entity :: DlnaDmrEntity where
  "mock_disconnected_entity =
     fst (async_added_to_hass offline (DlnaDmrEntity_init MOCK_DEVICE_LOCATION no_options))"

definition mock_connected_entity :: DlnaDmrEntity where
  "mock_connected_entity =
     fst (run mock_disconnected_entity [(online, Ssdp (alive_with_bootid ''1''))])"

text \<open>Concrete values used to run the definitions.\<close>

definition example_names :: nam_names where
  "example_names =
     \<lparr> DEFAULT_NAME = ''Nettigo Air Monitor'', DOMAIN = ''nam'',
       ButtonDeviceClass_RESTART = ''restart'', ENTITY_CATEGORY_CONFIG = ''config'' \<rparr>"

definition example_coordinator :: "(nat, string) NAMDataUpdateCoordinator" where
  "example_coordinator =
     \<lparr> nam = 1, device_info = ''NAM-8266'', unique_id = ''aa:bb:cc:dd:ee:ff'' \<rparr>"

definition example_button :: "(nat, string) NAMButton" where
  "example_button = NAMButton_init example_coordinator (RESTART_BUTTON example_names)"

definition unreachable_client :: "nat \<Rightarrow> string option" where
  "unreachable_client client = Some ''ApiError''"

definition example_volvo_names :: volvo_names where
  "example_volvo_names =
     \<lparr> DATA_KEY = ''volvooncall'', SIGNAL_STATE_UPDATED = ''volvooncall.updated'',
       SOURCE_TYPE_GPS = ''gps'', slugify = map (\<lambda>ch. if ch = CHR '' '' then CHR ''_'' else ch) \<rparr>"

definition example_hass_data :: "string \<rightharpoonup> nat" where
  "example_hass_data = [''volvooncall'' \<mapsto> 0]"

definition example_lookup :: "nat \<Rightarrow> string \<Rightarrow> string \<Rightarrow> string \<Rightarrow> string \<Rightarrow> string + nat" where
  "example_lookup data vin component attr slug_attr =
     (if vin = ''YV1'' then Inr 7 else Inl ''StopIteration'')"

definition example_async_see :: "(int \<times> int) see_args \<Rightarrow> string option" where
  "example_async_see kwargs = None"

section \<open>Properties of the restart button\<close>

text \<open>
  Claim C5. Pressing the restart button awaits \<open>async_restart\<close> on the coordinator's vendor
  client exactly once, with no arguments, and makes no other call on the vendor client:
  the calls made by \<open>async_press\<close> are that single one, whatever the vendor call does.
\<close>

theorem async_press_awaits_restart_once:
  "snd (async_press async_restart self) =
     [Vendor_await (nam (coordinator self)) ''async_restart'' []]"
  by (simp add: async_press_def Let_def)

text \<open>
  Claim C4, as stated, fails on the restart button: with a vendor client whose
  \<open>async_restart\<close> raises, the exception is not caught, it is the outcome of
  \<open>async_press\<close>.
\<close>

theorem async_press_raises_counterexample:
  "fst (async_press unreachable_client example_button) = Inl (Raised ''ApiError'')"
  by (simp add: async_press_def unreachable_client_def Let_def)

section \<open>Properties of the device tracker\<close>

text \<open>
  Claim C6. Called with a discovery tuple \<open>(vin, component, attr, slug_attr)\<close>, with the
  package's data object present in \<open>hass.data\<close> under \<open>DATA_KEY\<close> and an instrument found
  for the tuple, \<open>async_setup_scanner\<close> reads \<open>hass.data[DATA_KEY]\<close>, asks that object for
  the instrument of the tuple, connects \<open>see_vehicle\<close> (closed over that instrument and the
  given \<open>async_see\<close>) to the dispatcher under \<open>SIGNAL_STATE_UPDATED\<close> exactly once, and
  returns \<open>True\<close>.
\<close>

theorem async_setup_scanner_connects_see_vehicle:
  assumes "hass_data (DATA_KEY c) = Some data"
    and "lookup data vin component attr slug_attr = Inr instrument"
  shows "async_setup_scanner c lookup hass_data config async_see
           (Some [vin, component, attr, slug_attr]) =
         (Inr (Some True),
          [Read_hass_data (DATA_KEY c),
           Data_instrument vin component attr slug_attr,
           Dispatcher_connect (SIGNAL_STATE_UPDATED c) (See_vehicle instrument async_see)])"
  using assms by (simp add: async_setup_scanner_def)

theorem async_setup_scanner_connects_see_vehicle_witness:
  "example_hass_data (DATA_KEY example_volvo_names) = Some 0 \<and>
   example_lookup 0 ''YV1'' ''device_tracker'' ''position'' ''position'' = Inr 7 \<and>
   async_setup_scanner example_volvo_names example_lookup example_hass_data ()
      example_async_see (Some [''YV1'', ''device_tracker'', ''position'', ''position'']) =
     (Inr (Some True),
      [Read_hass_data ''volvooncall'',
       Data_instrument ''YV1'' ''device_tracker'' ''position'' ''position'',
       Dispatcher_connect ''volvooncall.updated'' (See_vehicle 7 example_async_see)])"
proof -
  have h1: "example_hass_data (DATA_KEY example_volvo_names) = Some 0"
    by (simp add: example_hass_data_def example_volvo_names_def)
  have h2: "example_lookup 0 ''YV1'' ''device_tracker'' ''position'' ''position'' = Inr 7"
    by (simp add: example_lookup_def)
  from async_setup_scanner_connects_see_vehicle
         [where c = example_volvo_names and hass_data = example_hass_data
            and lookup = example_lookup and config = "()"
            and async_see = example_async_see, OF h1 h2]
  show ?thesis using h1 h2 by (simp add: example_volvo_names_def)
qed

text \<open>
  Claim C7. Every invocation of the connected \<open>see_vehicle\<close> callback calls the host's
  \<open>async_see\<close> exactly once, with \<open>dev_id\<close> the text \<open>volvo_\<close> followed by the slugified
  vehicle name, \<open>host_name\<close> the vehicle name, \<open>source_type\<close> the GPS source type, \<open>gps\<close>
  the instrument's state at the time of the invocation, and \<open>icon\<close> the text \<open>mdi:car\<close>.
\<close>

theorem see_vehicle_calls_async_see_once:
  "snd (invoke c vendor (See_vehicle instrument async_see)) =
     [Async_see
        \<lparr> dev_id = ''volvo_'' @ slugify c (vehicle_name (vendor instrument)),
          host_name = vehicle_name (vendor instrument),
          source_type = SOURCE_TYPE_GPS c,
          gps = state (vendor instrument),
          icon = ''mdi:car'' \<rparr>]"
  by (simp add: see_vehicle_def Let_def)

text \<open>
  Claim C8. Called with \<open>discovery_info\<close> equal to \<open>None\<close>, \<open>async_setup_scanner\<close> returns
  \<open>None\<close> and does nothing: \<open>hass.data\<close> is not read, no instrument is asked for, no
  callback is connected to the dispatcher, and \<open>async_see\<close> is not called.
\<close>

theorem async_setup_scanner_without_discovery_info:
  "async_setup_scanner c lookup hass_data config async_see None = (Inr None, [])"
  by (simp add: async_setup_scanner_def)

text \<open>
  The branches of \<open>async_setup_scanner\<close> and \<open>see_vehicle\<close> that end in an exception: a
  discovery sequence that does not have four items, a registry without \<open>DATA_KEY\<close>, and
  an \<open>async_see\<close> that raises.
\<close>

lemma async_setup_scanner_bad_tuple:
  assumes "length info \<noteq> 4"
  shows "async_setup_scanner c lookup hass_data config async_see (Some info) =
           (Inl ValueError, [])"
  using assms by (auto simp: async_setup_scanner_def split: list.splits)

lemma async_setup_scanner_missing_data_key:
  assumes "hass_data (DATA_KEY c) = None"
  shows "async_setup_scanner c lookup hass_data config async_see
           (Some [vin, component, attr, slug_attr]) =
         (Inl (KeyError (DATA_KEY c)), [Read_hass_data (DATA_KEY c)])"
  using assms by (simp add: async_setup_scanner_def)

lemma see_vehicle_outcome:
  "fst (see_vehicle c vendor instrument async_see) =
     (case async_see
             \<lparr> dev_id = ''volvo_'' @ slugify c (vehicle_name (vendor instrument)),
               host_name = vehicle_name (vendor instrument),
               source_type = SOURCE_TYPE_GPS c,
               gps = state (vendor instrument),
               icon = ''mdi:car'' \<rparr> of
        None \<Rightarrow> Inr ()
      | Some e \<Rightarrow> Inl (Raised e))"
  by (simp add: see_vehicle_def Let_def)

text \<open>
  \<open>async_setup_entry\<close> of the restart button hands the host exactly one button, built on
  the coordinator stored for the config entry, whose unique id is the coordinator's
  followed by \<open>-restart\<close>.
\<close>

lemma async_setup_entry_adds_restart_button:
  assumes "hass_data (DOMAIN c) = Some entries" and "entries entry_id = Some coord"
  shows "\<exists>button.
           async_setup_entry c hass_data entry_id = (Inr (), [Add_entities [button] False]) \<and>
           coordinator button = coord \<and>
           attr_unique_id button = unique_id coord @ ''-restart'' \<and>
           entity_description button = RESTART_BUTTON c"
  using assms
  by (simp add: async_setup_entry_def NAMButton_init_def RESTART_BUTTON_def)

section \<open>The test-suite's scenarios on the connection bookkeeping\<close>

text \<open>
  The two fixtures: with a device that answers, adding the entity makes the calls that
  \<open>mock_entity_id\<close> counts (one update listener, one event notifier, one subscription,
  two SSDP registrations, event handler set); with a device that does not answer it makes
  the calls that \<open>mock_disconnected_entity_id\<close> counts.
\<close>

lemma fixture_mock_entity_id:
  "async_added_to_hass online (DlnaDmrEntity_init MOCK_DEVICE_LOCATION no_options) =
     (\<lparr> location = MOCK_DEVICE_LOCATION, connected = True, on_event = True, bootid = None,
        check_available = False, poll_availability = False, listen_port = 0,
        callback_url = None \<rparr>,
      [Add_update_listener, Create_device MOCK_DEVICE_LOCATION, Get_event_notifier,
       Subscribe_services None, Register_ssdp_callback, Register_ssdp_callback])"
  by (simp add: async_added_to_hass_def DlnaDmrEntity_init_def device_connect_def online_def
        no_options_def)

lemma fixture_mock_disconnected_entity_id:
  "async_added_to_hass offline (DlnaDmrEntity_init MOCK_DEVICE_LOCATION no_options) =
     (\<lparr> location = MOCK_DEVICE_LOCATION, connected = False, on_event = False, bootid = None,
        check_available = False, poll_availability = False, listen_port = 0,
        callback_url = None \<rparr>,
      [Add_update_listener, Create_device MOCK_DEVICE_LOCATION,
       Register_ssdp_callback, Register_ssdp_callback])"
  by (simp add: async_added_to_hass_def DlnaDmrEntity_init_def device_connect_def offline_def
        online_def no_options_def)

lemma mock_entity_eq:
  "mock_entity =
     \<lparr> location = MOCK_DEVICE_LOCATION, connected = True, on_event = True, bootid = None,
       check_available = False, poll_availability = False, listen_port = 0,
       callback_url = None \<rparr>"
  by (simp add: mock_entity_def fixture_mock_entity_id)

lemma mock_disconnected_entity_eq:
  "mock_disconnected_entity =
     \<lparr> location = MOCK_DEVICE_LOCATION, connected = False, on_event = False, bootid = None,
       check_available = False, poll_availability = False, listen_port = 0,
       callback_url = None \<rparr>"
  by (simp add: mock_disconnected_entity_def fixture_mock_disconnected_entity_id)

text \<open>The header values of the tests, read as boot IDs.\<close>

lemma header_int_simps:
  "header_int [ATTR_SSDP_BOOTID \<mapsto> ''1''] ATTR_SSDP_BOOTID = Some 1"
  "header_int [ATTR_SSDP_BOOTID \<mapsto> ''2''] ATTR_SSDP_BOOTID = Some 2"
  "header_int [ATTR_SSDP_BOOTID \<mapsto> ''3''] ATTR_SSDP_BOOTID = Some 3"
  "header_int [''NTS'' \<mapsto> ''ssdp:update'', ATTR_SSDP_BOOTID \<mapsto> ''1'', ATTR_SSDP_NEXTBOOTID \<mapsto> ''2'']
     ATTR_SSDP_BOOTID = Some 1"
  "header_int [''NTS'' \<mapsto> ''ssdp:update'', ATTR_SSDP_BOOTID \<mapsto> ''1'', ATTR_SSDP_NEXTBOOTID \<mapsto> ''2'']
     ATTR_SSDP_NEXTBOOTID = Some 2"
  "header_int [''NTS'' \<mapsto> ''ssdp:update'', ATTR_SSDP_BOOTID \<mapsto> ''2'', ATTR_SSDP_NEXTBOOTID \<mapsto> ''3'']
     ATTR_SSDP_BOOTID = Some 2"
  "header_int [''NTS'' \<mapsto> ''ssdp:update'', ATTR_SSDP_BOOTID \<mapsto> ''2'', ATTR_SSDP_NEXTBOOTID \<mapsto> ''3'']
     ATTR_SSDP_NEXTBOOTID = Some 3"
  "header_int [''NTS'' \<mapsto> ''ssdp:update'', ATTR_SSDP_BOOTID \<mapsto> ''2'',
       ATTR_SSDP_NEXTBOOTID \<mapsto> ''7c848375-a106-4bd1-ac3c-8e50427c8e4f''] ATTR_SSDP_BOOTID = Some 2"
  "header_int [''NTS'' \<mapsto> ''ssdp:update'', ATTR_SSDP_BOOTID \<mapsto> ''2'',
       ATTR_SSDP_NEXTBOOTID \<mapsto> ''7c848375-a106-4bd1-ac3c-8e50427c8e4f''] ATTR_SSDP_NEXTBOOTID = None"
  by (simp_all add: header_int_def int_base10_def digit_def ATTR_SSDP_BOOTID_def
        ATTR_SSDP_NEXTBOOTID_def)

lemmas run_defs =
  mock_entity_eq mock_disconnected_entity_eq alive_with_bootid_def update_with_bootids_def
  deliver_def async_ssdp_callback_def note_bootid_def device_connect_def device_disconnect_def
  async_update_def async_set_volume_level_def async_config_update_listener_def
  device_event_def online_def offline_def call_failing_def connection_broken_def
  subscribe_failing_def subscribe_rejecting_def no_options_def header_int_simps available_def
  Let_def

text \<open>
  The three boot-ID tests, each started from the disconnected fixture with the device
  answering again: the final state is available and the subscribe and unsubscribe counts
  are the ones the tests assert at their end.
\<close>

lemma test_ssdp_bootid:
  "(let (self', calls) =
      run mock_disconnected_entity
        [(online, Ssdp (alive_with_bootid ''1'')), (online, Ssdp (alive_with_bootid ''1'')),
         (online, Ssdp (alive_with_bootid ''2''))]
    in available online self' \<and> length (filter is_subscribe calls) = 2 \<and>
       count_list calls Unsubscribe_services = 1)"
  by (simp add: run_defs)

lemma test_ssdp_update_seen_bootid:
  "(let (self', calls) =
      run mock_disconnected_entity
        [(online, Ssdp (alive_with_bootid ''1'')),
         (online, Ssdp (update_with_bootids ''1'' ''2'')),
         (online, Ssdp (update_with_bootids ''1'' ''2'')),
         (online, Ssdp (update_with_bootids ''2'' ''7c848375-a106-4bd1-ac3c-8e50427c8e4f'')),
         (online, Ssdp (alive_with_bootid ''2''))]
    in available online self' \<and> length (filter is_subscribe calls) = 1 \<and>
       count_list calls Unsubscribe_services = 0)"
  by (simp add: run_defs)

lemma test_ssdp_update_missed_bootid:
  "(let (self', calls) =
      run mock_disconnected_entity
        [(online, Ssdp (alive_with_bootid ''1'')),
         (online, Ssdp (update_with_bootids ''2'' ''3'')),
         (online, Ssdp (alive_with_bootid ''3''))]
    in available online self' \<and> length (filter is_subscribe calls) = 2 \<and>
       count_list calls Unsubscribe_services = 1)"
  by (simp add: run_defs)

text \<open>
  The tests of failing calls. \<open>test_become_unavailable\<close>: an update without ping; a
  failing volume-set call that leaves the entity available and flagged; the update after it
  pings; with the connection broken, the update after the failing call disconnects the
  device and the entity is unavailable. \<open>test_event_subscribe_failure\<close> and
  \<open>test_event_subscribe_rejected\<close>: a failing subscription request leaves the entity
  unavailable, a rejected one available, and neither is followed by an unsubscribe.
\<close>

lemma test_become_unavailable:
  "run mock_entity [(online, Poll)] = (mock_entity, [Device_update False])"
  "run mock_entity [(call_failing, Volume_set)] =
     (mock_entity\<lparr> check_available := True \<rparr>, [Device_call])"
  "available call_failing (fst (run mock_entity [(call_failing, Volume_set)]))"
  "run mock_entity [(call_failing, Volume_set), (call_failing, Poll)] =
     (mock_entity, [Device_call, Device_update True])"
  "run mock_entity [(connection_broken, Volume_set), (connection_broken, Poll)] =
     (mock_entity\<lparr> connected := False, on_event := False \<rparr>,
      [Device_call, Device_update True, Unsubscribe_services, Release_event_notifier])"
  "\<not> available connection_broken
        (fst (run mock_entity [(connection_broken, Volume_set), (connection_broken, Poll)]))"
  by (simp_all add: run_defs)

lemma test_event_subscribe_failure:
  "(let (self', calls) =
      async_added_to_hass subscribe_failing (DlnaDmrEntity_init MOCK_DEVICE_LOCATION no_options)
    in \<not> available subscribe_failing self' \<and> count_list calls Unsubscribe_services = 0 \<and>
       length (filter is_subscribe calls) = 1)"
  by (simp add: async_added_to_hass_def DlnaDmrEntity_init_def run_defs)

lemma test_event_subscribe_rejected:
  "(let (self', calls) =
      async_added_to_hass subscribe_rejecting (DlnaDmrEntity_init MOCK_DEVICE_LOCATION no_options)
    in available subscribe_rejecting self' \<and> count_list calls Unsubscribe_services = 0)"
  by (simp add: async_added_to_hass_def DlnaDmrEntity_init_def run_defs)

text \<open>
  The tests of config updates, of polling for availability, of service calls on a
  disconnected entity and of an event without state variables.
\<close>

lemma test_config_update_listen_port:
  "run mock_entity [(online, Config_update (no_options\<lparr> opt_listen_port := 1234 \<rparr>))] =
     (mock_entity\<lparr> listen_port := 1234 \<rparr>,
      [Unsubscribe_services, Release_event_notifier, Create_device MOCK_DEVICE_LOCATION,
       Get_event_notifier, Subscribe_services None])"
  by (simp add: run_defs)

lemma test_config_update_connect_failure:
  "run mock_entity [(offline, Config_update (no_options\<lparr> opt_listen_port := 1234 \<rparr>))] =
     (mock_entity\<lparr> connected := False, on_event := False, listen_port := 1234 \<rparr>,
      [Unsubscribe_services, Release_event_notifier, Create_device MOCK_DEVICE_LOCATION])"
  by (simp add: run_defs)

lemma test_config_update_poll_availability:
  "run mock_entity
     [(online, Poll), (online, Config_update (no_options\<lparr> opt_poll_availability := True \<rparr>)),
      (online, Poll)] =
     (mock_entity\<lparr> poll_availability := True \<rparr>, [Device_update False, Device_update True])"
  by (simp add: run_defs)

lemma test_poll_availability:
  "run (mock_disconnected_entity\<lparr> poll_availability := True \<rparr>) [(offline, Poll)] =
     (mock_disconnected_entity\<lparr> poll_availability := True \<rparr>, [Create_device MOCK_DEVICE_LOCATION])"
  "run (mock_disconnected_entity\<lparr> poll_availability := True \<rparr>) [(online, Poll)] =
     (mock_entity\<lparr> poll_availability := True \<rparr>,
      [Create_device MOCK_DEVICE_LOCATION, Get_event_notifier, Subscribe_services None,
       Device_update True])"
  "run mock_disconnected_entity [(online, Poll)] = (mock_disconnected_entity, [])"
  by (simp_all add: run_defs)

lemma test_unavailable_device_services:
  "run mock_disconnected_entity [(online, Volume_set)] = (mock_disconnected_entity, [])"
  by (simp add: run_defs)

lemma test_resubscribe_failure:
  "run mock_entity [(online, Poll), (online, Device_event True), (online, Poll)] =
     (mock_entity, [Device_update False, Device_update True])"
  by (simp add: run_defs)

lemma mock_connected_entity_eq:
  "mock_connected_entity =
     \<lparr> location = MOCK_DEVICE_LOCATION, connected = True, on_event = True, bootid = Some 1,
       check_available = False, poll_availability = False, listen_port = 0,
       callback_url = None \<rparr>"
  by (simp add: mock_connected_entity_def run_defs)


section \<open>Resources held across events\<close>

text \<open>
  Every operation keeps \<open>holding\<close>: what the entity holds matches the calls made so far.
  The events never touch the update listener or the SSDP registrations.
\<close>

lemma holding_fields:
  "holding (self\<lparr> bootid := b \<rparr>) calls = holding self calls"
  "holding (self\<lparr> check_available := c \<rparr>) calls = holding self calls"
  "holding (self\<lparr> poll_availability := p \<rparr>) calls = holding self calls"
  "holding (self\<lparr> listen_port := n \<rparr>) calls = holding self calls"
  "holding (self\<lparr> callback_url := u \<rparr>) calls = holding self calls"
  "holding (self\<lparr> location := l \<rparr>) calls = holding self calls"
  by (simp_all add: holding_def)

lemma holding_connect:
  assumes "holding self calls" and "device_connect world url self = (err, self', calls')"
  shows "holding self' (calls @ calls')"
  using assms
  by (auto simp: holding_def device_connect_def split: if_splits option.splits)

lemma holding_disconnect:
  assumes "holding self calls" and "device_disconnect self = (self', calls')"
  shows "holding self' (calls @ calls')"
  using assms
  by (auto simp: holding_def device_disconnect_def split: if_splits)

lemma holding_note_bootid:
  assumes "holding self calls" and "note_bootid self seen = (self', calls')"
  shows "holding self' (calls @ calls')"
proof (cases "bootid self \<noteq> None \<and> bootid self \<noteq> seen")
  case True
  obtain s1 d1 where d: "device_disconnect self = (s1, d1)" by (cases "device_disconnect self")
  with True assms(2) have "self' = s1\<lparr> bootid := seen \<rparr>" "calls' = d1"
    by (auto simp: note_bootid_def)
  with holding_disconnect [OF assms(1) d] show ?thesis by (simp add: holding_fields)
next
  case False
  with assms(2) have "self' = self\<lparr> bootid := seen \<rparr>" "calls' = []"
    by (auto simp: note_bootid_def)
  with assms(1) show ?thesis by (simp add: holding_fields)
qed

lemma holding_callback:
  assumes "holding self calls" and "async_ssdp_callback world self n = (self', calls')"
  shows "holding self' (calls @ calls')"
proof (cases n)
  case (Update headers)
  with assms show ?thesis
    by (auto simp: async_ssdp_callback_def holding_fields split: if_splits option.splits)
next
  case (Alive url headers)
  obtain s1 d1 where n: "note_bootid self (header_int headers ATTR_SSDP_BOOTID) = (s1, d1)"
    by (cases "note_bootid self (header_int headers ATTR_SSDP_BOOTID)")
  have h1: "holding s1 (calls @ d1)" by (rule holding_note_bootid [OF assms(1) n])
  show ?thesis
  proof (cases "connected s1")
    case True
    with Alive n assms(2) have "self' = s1" "calls' = d1"
      by (auto simp: async_ssdp_callback_def)
    with h1 show ?thesis by simp
  next
    case False
    obtain err s2 d2 where c: "device_connect world url s1 = (err, s2, d2)"
      by (cases "device_connect world url s1") auto
    with False Alive n assms(2) have "self' = s2" "calls' = d1 @ d2"
      by (auto simp: async_ssdp_callback_def)
    with holding_connect [OF h1 c] show ?thesis by simp
  qed
next
  case (Byebye headers)
  obtain s1 d1 where n: "note_bootid self (header_int headers ATTR_SSDP_BOOTID) = (s1, d1)"
    by (cases "note_bootid self (header_int headers ATTR_SSDP_BOOTID)")
  obtain s2 d2 where d: "device_disconnect s1 = (s2, d2)" by (cases "device_disconnect s1")
  have h1: "holding s1 (calls @ d1)" by (rule holding_note_bootid [OF assms(1) n])
  from Byebye n d assms(2) have "self' = s2" "calls' = d1 @ d2"
    by (auto simp: async_ssdp_callback_def)
  with holding_disconnect [OF h1 d] show ?thesis by simp
qed

lemma holding_device_update:
  "holding self (calls @ [Device_update ping]) = holding self calls"
  by (simp add: holding_def)

lemma holding_update:
  assumes "holding self calls" and "async_update world self = (err, self', calls')"
  shows "holding self' (calls @ calls')"
proof -
  obtain e1 s1 d1 where
    c: "(if \<not> connected self \<and> poll_availability self
         then device_connect world (location self) self else (None, self, [])) = (e1, s1, d1)"
    by (cases "if \<not> connected self \<and> poll_availability self
               then device_connect world (location self) self else (None, self, [])") auto
  have h1: "holding s1 (calls @ d1)"
  proof (cases "\<not> connected self \<and> poll_availability self")
    case True
    with c have "device_connect world (location self) self = (e1, s1, d1)" by simp
    from holding_connect [OF assms(1) this] show ?thesis .
  next
    case False
    with c assms(1) show ?thesis by auto
  qed
  show ?thesis
  proof (cases "connected s1")
    case False
    with c assms(2) have "self' = s1" "calls' = d1" by (auto simp: async_update_def)
    with h1 show ?thesis by simp
  next
    case True
    note on = this
    show ?thesis
    proof (cases "device_update world")
      case None
      with on c assms(2) have
        "self' = s1\<lparr> check_available := False \<rparr>"
        "calls' = d1 @ [Device_update (poll_availability s1 \<or> check_available s1)]"
        by (auto simp: async_update_def Let_def)
      with h1 show ?thesis
        using holding_device_update [of s1 "calls @ d1"] by (simp add: holding_fields)
    next
      case (Some raised)
      obtain s2 d2 where d: "device_disconnect s1 = (s2, d2)" by (cases "device_disconnect s1")
      from Some on c d assms(2) have e:
        "self' = s2\<lparr> check_available := False \<rparr>"
        "calls' = d1 @ [Device_update (poll_availability s1 \<or> check_available s1)] @ d2"
        by (auto simp: async_update_def Let_def)
      have "holding s1 ((calls @ d1) @ [Device_update (poll_availability s1 \<or> check_available s1)])"
        using h1 by (simp only: holding_device_update)
      from holding_disconnect [OF this d] e show ?thesis by (simp add: holding_fields)
    qed
  qed
qed

lemma holding_volume:
  assumes "holding self calls" and "async_set_volume_level world self = (err, self', calls')"
  shows "holding self' (calls @ calls')"
  using assms
  by (auto simp: async_set_volume_level_def holding_def split: if_splits option.splits)

lemma holding_config:
  assumes "holding self calls" and "async_config_update_listener world self opts = (self', calls')"
  shows "holding self' (calls @ calls')"
proof -
  let ?s0 = "self\<lparr> poll_availability := opt_poll_availability opts \<rparr>"
  have h0: "holding ?s0 calls" using assms(1) by (simp add: holding_fields)
  show ?thesis
  proof (cases "opt_listen_port opts = listen_port ?s0 \<and> opt_callback_url opts = callback_url ?s0")
    case True
    with assms(2) have "self' = ?s0" "calls' = []"
      by (auto simp: async_config_update_listener_def Let_def)
    with h0 show ?thesis by simp
  next
    case False
    obtain s1 d1 where d: "device_disconnect ?s0 = (s1, d1)" by (cases "device_disconnect ?s0")
    let ?s2 = "s1\<lparr> listen_port := opt_listen_port opts, callback_url := opt_callback_url opts \<rparr>"
    obtain e3 s3 d3 where c: "device_connect world (location ?s2) ?s2 = (e3, s3, d3)"
      by (cases "device_connect world (location ?s2) ?s2") auto
    from False d c assms(2) have e: "self' = s3" "calls' = d1 @ d3"
      by (auto simp: async_config_update_listener_def Let_def)
    have "holding ?s2 (calls @ d1)"
      using holding_disconnect [OF h0 d] by (simp add: holding_fields)
    from holding_connect [OF this c] e show ?thesis by simp
  qed
qed

lemma holding_deliver:
  assumes "holding self calls" and "deliver world self ev = (self', calls')"
  shows "holding self' (calls @ calls')"
proof (cases ev)
  case (Ssdp n)
  with assms(2) have "async_ssdp_callback world self n = (self', calls')"
    by (simp add: deliver_def)
  from holding_callback [OF assms(1) this] show ?thesis .
next
  case Poll
  with assms(2) have "async_update world self = (fst (async_update world self), self', calls')"
    by (cases "async_update world self") (simp add: deliver_def)
  from holding_update [OF assms(1) this] show ?thesis .
next
  case Volume_set
  with assms(2) have
    "async_set_volume_level world self = (fst (async_set_volume_level world self), self', calls')"
    by (cases "async_set_volume_level world self") (simp add: deliver_def)
  from holding_volume [OF assms(1) this] show ?thesis .
next
  case (Config_update opts)
  with assms(2) have "async_config_update_listener world self opts = (self', calls')"
    by (simp add: deliver_def)
  from holding_config [OF assms(1) this] show ?thesis .
next
  case (Device_event none)
  with assms show ?thesis
    by (auto simp: deliver_def device_event_def holding_fields)
qed

lemma holding_run:
  assumes "holding self calls" and "run self events = (self', calls')"
  shows "holding self' (calls @ calls')"
  using assms
proof (induction events arbitrary: self calls self' calls')
  case Nil
  then show ?case by simp
next
  case (Cons a rest)
  obtain world ev where a: "a = (world, ev)" by (cases a)
  obtain s1 d1 where c: "deliver world self ev = (s1, d1)" by (cases "deliver world self ev")
  obtain s2 d2 where r: "run s1 rest = (s2, d2)" by (cases "run s1 rest")
  from Cons.prems(2) a c r have e: "self' = s2" "calls' = d1 @ d2" by auto
  have "holding s1 (calls @ d1)" by (rule holding_deliver [OF Cons.prems(1) c])
  from Cons.IH [OF this r] e show ?case by simp
qed

lemma connect_no_bookkeeping:
  "bookkeeping x \<Longrightarrow> x \<notin> set (snd (snd (device_connect world url self)))"
  by (auto simp: bookkeeping_def device_connect_def split: option.splits)

lemma disconnect_no_bookkeeping:
  "bookkeeping x \<Longrightarrow> x \<notin> set (snd (device_disconnect self))"
  by (auto simp: bookkeeping_def device_disconnect_def)

lemma note_bootid_no_bookkeeping:
  "bookkeeping x \<Longrightarrow> x \<notin> set (snd (note_bootid self seen))"
  using disconnect_no_bookkeeping [of x self]
  by (auto simp: note_bootid_def split: prod.splits if_splits)

lemma callback_no_bookkeeping:
  assumes "bookkeeping x"
  shows "x \<notin> set (snd (async_ssdp_callback world self n))"
proof (cases n)
  case (Update headers)
  then show ?thesis by (simp add: async_ssdp_callback_def split: option.splits)
next
  case (Alive url headers)
  obtain s1 d1 where n: "note_bootid self (header_int headers ATTR_SSDP_BOOTID) = (s1, d1)"
    by (cases "note_bootid self (header_int headers ATTR_SSDP_BOOTID)")
  from note_bootid_no_bookkeeping [OF assms, of self "header_int headers ATTR_SSDP_BOOTID"] n
  have 1: "x \<notin> set d1" by simp
  from connect_no_bookkeeping [OF assms, of world url s1]
  have 2: "x \<notin> set (snd (snd (device_connect world url s1)))" .
  from Alive n 1 2 show ?thesis
    by (auto simp: async_ssdp_callback_def split: prod.splits)
next
  case (Byebye headers)
  obtain s1 d1 where n: "note_bootid self (header_int headers ATTR_SSDP_BOOTID) = (s1, d1)"
    by (cases "note_bootid self (header_int headers ATTR_SSDP_BOOTID)")
  from note_bootid_no_bookkeeping [OF assms, of self "header_int headers ATTR_SSDP_BOOTID"] n
  have 1: "x \<notin> set d1" by simp
  from disconnect_no_bookkeeping [OF assms, of s1]
  have 2: "x \<notin> set (snd (device_disconnect s1))" .
  from Byebye n 1 2 show ?thesis
    by (auto simp: async_ssdp_callback_def split: prod.splits)
qed

lemma update_no_bookkeeping:
  assumes "bookkeeping x"
  shows "x \<notin> set (snd (snd (async_update world self)))"
proof -
  obtain e1 s1 d1 where
    c: "(if \<not> connected self \<and> poll_availability self
         then device_connect world (location self) self else (None, self, [])) = (e1, s1, d1)"
    by (cases "if \<not> connected self \<and> poll_availability self
               then device_connect world (location self) self else (None, self, [])") auto
  have 1: "x \<notin> set d1"
    using c connect_no_bookkeeping [OF assms, of world "location self" self]
    by (auto split: if_splits)
  have 2: "x \<notin> set (snd (device_disconnect s1))"
    by (rule disconnect_no_bookkeeping [OF assms])
  have 3: "x \<noteq> Device_update ping" for ping
    using assms by (auto simp: bookkeeping_def)
  from c 1 2 3 show ?thesis
    by (auto simp: async_update_def Let_def split: option.splits prod.splits)
qed

lemma volume_no_bookkeeping:
  "bookkeeping x \<Longrightarrow> x \<notin> set (snd (snd (async_set_volume_level world self)))"
  by (auto simp: bookkeeping_def async_set_volume_level_def split: option.splits)

lemma config_no_bookkeeping:
  assumes "bookkeeping x"
  shows "x \<notin> set (snd (async_config_update_listener world self opts))"
proof -
  let ?s0 = "self\<lparr> poll_availability := opt_poll_availability opts \<rparr>"
  obtain s1 d1 where d: "device_disconnect ?s0 = (s1, d1)" by (cases "device_disconnect ?s0")
  let ?s2 = "s1\<lparr> listen_port := opt_listen_port opts, callback_url := opt_callback_url opts \<rparr>"
  have 1: "x \<notin> set d1" using disconnect_no_bookkeeping [OF assms, of ?s0] d by simp
  have 2: "x \<notin> set (snd (snd (device_connect world (location ?s2) ?s2)))"
    by (rule connect_no_bookkeeping [OF assms])
  from d 1 2 show ?thesis
    by (auto simp: async_config_update_listener_def Let_def split: prod.splits)
qed

lemma deliver_no_bookkeeping:
  assumes "bookkeeping x"
  shows "x \<notin> set (snd (deliver world self ev))"
  using callback_no_bookkeeping [OF assms] update_no_bookkeeping [OF assms]
    volume_no_bookkeeping [OF assms] config_no_bookkeeping [OF assms]
  by (cases ev) (simp_all add: deliver_def)

lemma run_no_bookkeeping:
  "bookkeeping x \<Longrightarrow> x \<notin> set (snd (run self events))"
proof (induction events arbitrary: self)
  case Nil
  then show ?case by simp
next
  case (Cons a rest)
  obtain world ev where a: "a = (world, ev)" by (cases a)
  obtain s1 d1 where c: "deliver world self ev = (s1, d1)" by (cases "deliver world self ev")
  obtain s2 d2 where r: "run s1 rest = (s2, d2)" by (cases "run s1 rest")
  from deliver_no_bookkeeping [OF Cons.prems, of world self ev] c
  have 1: "x \<notin> set d1" by simp
  from Cons.IH [OF Cons.prems, of s1] r have 2: "x \<notin> set d2" by simp
  from a c r 1 2 show ?case by simp
qed

lemma run_count_bookkeeping:
  "bookkeeping x \<Longrightarrow> count_list (snd (run self events)) x = 0"
  by (simp add: run_no_bookkeeping)

lemma all_established:
  "\<forall>c\<in>set calls. is_subscribe c \<longrightarrow> is_connection c \<Longrightarrow>
     filter is_connection calls = filter is_subscribe calls"
proof (induction calls)
  case Nil
  then show ?case by simp
next
  case (Cons c calls)
  then show ?case by (cases c) auto
qed


section \<open>Properties of the connection bookkeeping\<close>

text \<open>
  Claim C1, as stated, fails on the scenario of \<open>test_ssdp_update_missed_bootid\<close>. The
  entity has recorded boot ID 1; an update with boot ID 2 announces the next boot ID 3;
  the alive notification that follows carries boot ID 3, a boot ID previously announced in
  an update's \<open>NEXTBOOTID.UPNP.ORG\<close> header. The claim says that it causes no unsubscribe
  and no new subscription; it unsubscribes and subscribes again, as the test asserts
  (unsubscribe count 1, subscribe count 2).
\<close>

theorem alive_with_announced_bootid_counterexample:
  "snd (async_ssdp_callback online
          (fst (run mock_disconnected_entity
                  [(online, Ssdp (alive_with_bootid ''1'')),
                   (online, Ssdp (update_with_bootids ''2'' ''3''))]))
          (alive_with_bootid ''3'')) =
     [Unsubscribe_services, Release_event_notifier, Create_device MOCK_DEVICE_LOCATION,
      Get_event_notifier, Subscribe_services None]"
  by (simp add: run_defs)


text \<open>
  Claim C1, amended. For a connected entity that has recorded boot ID \<open>b\<close>:
  \<^item> an alive notification whose boot ID differs from \<open>b\<close> always unsubscribes from the old
    connection, exactly once, and gives its event notifier back; it then asks for the
    device at the announced location and, when the device answers, makes exactly one new
    subscription request (none when it does not answer); the notification's boot ID
    becomes the recorded one;
  \<^item> an alive notification carrying \<open>b\<close> causes no call at all and changes nothing;
  \<^item> an update whose own boot ID is \<open>b\<close> and whose next boot ID is the number \<open>n\<close>
    makes \<open>n\<close> the recorded boot ID, after which an alive notification carrying \<open>n\<close>
    causes no call at all;
  \<^item> an update whose own boot ID is not \<open>b\<close> records nothing and leaves the entity as it
    was, so that an alive notification after it is handled exactly as if the update had
    not been received: by the first two items it resubscribes exactly when its boot ID
    differs from \<open>b\<close>, whether or not that boot ID was announced.
\<close>

theorem alive_resubscribes_when_bootid_differs:
  assumes "connected self" and "bootid self = Some b"
  shows
    "(header_int changed ATTR_SSDP_BOOTID \<noteq> Some b \<longrightarrow>
        snd (async_ssdp_callback world self (Alive url changed)) =
          [Unsubscribe_services, Release_event_notifier, Create_device url] @
          (case create_device world url of
             Some err \<Rightarrow> []
           | None \<Rightarrow>
               [Get_event_notifier, Subscribe_services (subscribe_services world)] @
               (if established (subscribe_services world) then []
                else [Release_event_notifier])) \<and>
        count_list (snd (async_ssdp_callback world self (Alive url changed)))
          Unsubscribe_services = 1 \<and>
        length (filter is_subscribe (snd (async_ssdp_callback world self (Alive url changed)))) =
          (if create_device world url = None then 1 else 0) \<and>
        bootid (fst (async_ssdp_callback world self (Alive url changed))) =
          header_int changed ATTR_SSDP_BOOTID \<and>
        connected (fst (async_ssdp_callback world self (Alive url changed))) =
          (create_device world url = None \<and> established (subscribe_services world))) \<and>
     (header_int same ATTR_SSDP_BOOTID = Some b \<longrightarrow>
        async_ssdp_callback world self (Alive url same) = (self, [])) \<and>
     (header_int expected ATTR_SSDP_BOOTID = Some b \<longrightarrow>
      header_int expected ATTR_SSDP_NEXTBOOTID = Some n \<longrightarrow>
      header_int announced ATTR_SSDP_BOOTID = Some n \<longrightarrow>
        async_ssdp_callback world self (Update expected) = (self\<lparr> bootid := Some n \<rparr>, []) \<and>
        async_ssdp_callback world (self\<lparr> bootid := Some n \<rparr>) (Alive url announced) =
          (self\<lparr> bootid := Some n \<rparr>, [])) \<and>
     (header_int missed ATTR_SSDP_BOOTID \<noteq> Some b \<longrightarrow>
        async_ssdp_callback world self (Update missed) = (self, []) \<and>
        async_ssdp_callback world (fst (async_ssdp_callback world self (Update missed)))
          (Alive url after) = async_ssdp_callback world self (Alive url after))"
proof (intro conjI impI)
  assume d: "header_int changed ATTR_SSDP_BOOTID \<noteq> Some b"
  let ?r = "async_ssdp_callback world self (Alive url changed)"
  from d assms have n:
    "note_bootid self (header_int changed ATTR_SSDP_BOOTID) =
       (self\<lparr> connected := False, on_event := False,
              bootid := header_int changed ATTR_SSDP_BOOTID \<rparr>,
        [Unsubscribe_services, Release_event_notifier])"
    by (simp add: note_bootid_def device_disconnect_def)
  show "snd ?r =
          [Unsubscribe_services, Release_event_notifier, Create_device url] @
          (case create_device world url of
             Some err \<Rightarrow> []
           | None \<Rightarrow>
               [Get_event_notifier, Subscribe_services (subscribe_services world)] @
               (if established (subscribe_services world) then []
                else [Release_event_notifier]))"
    by (simp add: async_ssdp_callback_def n device_connect_def split: option.splits)
  show "count_list (snd ?r) Unsubscribe_services = 1"
    by (simp add: async_ssdp_callback_def n device_connect_def split: option.splits)
  show "length (filter is_subscribe (snd ?r)) = (if create_device world url = None then 1 else 0)"
    by (simp add: async_ssdp_callback_def n device_connect_def split: option.splits)
  show "bootid (fst ?r) = header_int changed ATTR_SSDP_BOOTID"
    by (simp add: async_ssdp_callback_def n device_connect_def split: option.splits)
  show "connected (fst ?r) =
          (create_device world url = None \<and> established (subscribe_services world))"
    by (simp add: async_ssdp_callback_def n device_connect_def split: option.splits)
next
  assume "header_int same ATTR_SSDP_BOOTID = Some b"
  with assms show "async_ssdp_callback world self (Alive url same) = (self, [])"
    by (simp add: async_ssdp_callback_def note_bootid_def)
next
  assume "header_int expected ATTR_SSDP_BOOTID = Some b"
    and "header_int expected ATTR_SSDP_NEXTBOOTID = Some n"
  with assms show
    "async_ssdp_callback world self (Update expected) = (self\<lparr> bootid := Some n \<rparr>, [])"
    by (simp add: async_ssdp_callback_def)
next
  assume "header_int announced ATTR_SSDP_BOOTID = Some n"
  with assms show
    "async_ssdp_callback world (self\<lparr> bootid := Some n \<rparr>) (Alive url announced) =
       (self\<lparr> bootid := Some n \<rparr>, [])"
    by (simp add: async_ssdp_callback_def note_bootid_def)
next
  assume m: "header_int missed ATTR_SSDP_BOOTID \<noteq> Some b"
  with assms show u: "async_ssdp_callback world self (Update missed) = (self, [])"
    by (auto simp: async_ssdp_callback_def)
  show "async_ssdp_callback world (fst (async_ssdp_callback world self (Update missed)))
          (Alive url after) = async_ssdp_callback world self (Alive url after)"
    by (simp add: u)
qed

theorem alive_resubscribes_when_bootid_differs_witness:
  "connected mock_connected_entity \<and> bootid mock_connected_entity = Some 1 \<and>
   header_int [ATTR_SSDP_BOOTID \<mapsto> ''2''] ATTR_SSDP_BOOTID \<noteq> Some 1 \<and>
   snd (async_ssdp_callback online mock_connected_entity (alive_with_bootid ''2'')) =
     [Unsubscribe_services, Release_event_notifier, Create_device MOCK_DEVICE_LOCATION,
      Get_event_notifier, Subscribe_services None] \<and>
   snd (async_ssdp_callback offline mock_connected_entity (alive_with_bootid ''2'')) =
     [Unsubscribe_services, Release_event_notifier, Create_device MOCK_DEVICE_LOCATION] \<and>
   header_int [ATTR_SSDP_BOOTID \<mapsto> ''1''] ATTR_SSDP_BOOTID = Some 1 \<and>
   async_ssdp_callback online mock_connected_entity (alive_with_bootid ''1'') =
     (mock_connected_entity, []) \<and>
   async_ssdp_callback online mock_connected_entity (update_with_bootids ''1'' ''2'') =
     (mock_connected_entity\<lparr> bootid := Some 2 \<rparr>, []) \<and>
   async_ssdp_callback online (mock_connected_entity\<lparr> bootid := Some 2 \<rparr>)
     (alive_with_bootid ''2'') = (mock_connected_entity\<lparr> bootid := Some 2 \<rparr>, []) \<and>
   async_ssdp_callback online mock_connected_entity (update_with_bootids ''2'' ''3'') =
     (mock_connected_entity, []) \<and>
   snd (async_ssdp_callback online
          (fst (async_ssdp_callback online mock_connected_entity (update_with_bootids ''2'' ''3'')))
          (alive_with_bootid ''3'')) =
     [Unsubscribe_services, Release_event_notifier, Create_device MOCK_DEVICE_LOCATION,
      Get_event_notifier, Subscribe_services None]"
proof -
  have c: "connected mock_connected_entity" and b: "bootid mock_connected_entity = Some 1"
    by (simp_all add: mock_connected_entity_eq)
  note inst =
    alive_resubscribes_when_bootid_differs [OF c b,
      where changed = "[ATTR_SSDP_BOOTID \<mapsto> ''2'']"
        and url = MOCK_DEVICE_LOCATION and same = "[ATTR_SSDP_BOOTID \<mapsto> ''1'']"
        and expected = "[''NTS'' \<mapsto> ''ssdp:update'', ATTR_SSDP_BOOTID \<mapsto> ''1'',
                         ATTR_SSDP_NEXTBOOTID \<mapsto> ''2'']"
        and n = 2 and announced = "[ATTR_SSDP_BOOTID \<mapsto> ''2'']"
        and missed = "[''NTS'' \<mapsto> ''ssdp:update'', ATTR_SSDP_BOOTID \<mapsto> ''2'',
                       ATTR_SSDP_NEXTBOOTID \<mapsto> ''3'']"
        and after = "[ATTR_SSDP_BOOTID \<mapsto> ''3'']"]
  from inst [where world = online] inst [where world = offline]
  show ?thesis
    using c b
    by (simp add: run_defs mock_connected_entity_eq)
qed


text \<open>
  Claim C2. Handling an update notification, whatever its headers (the expected next boot
  ID, one already announced, a non-numeric next boot ID, a boot ID never seen), makes no
  call (no unsubscribe, no subscribe), leaves the availability as it was, and changes
  nothing of the entity but the recorded boot ID: that becomes the announced next boot ID
  when the update's own boot ID is the recorded one and the next boot ID is numeric, and
  stays as it was otherwise.
\<close>

theorem ssdp_update_only_records_bootid:
  "snd (async_ssdp_callback world self (Update headers)) = [] \<and>
   available world (fst (async_ssdp_callback world self (Update headers))) =
     available world self \<and>
   fst (async_ssdp_callback world self (Update headers)) =
     self\<lparr> bootid :=
       (if bootid self \<noteq> None \<and> bootid self = header_int headers ATTR_SSDP_BOOTID \<and>
           header_int headers ATTR_SSDP_NEXTBOOTID \<noteq> None
        then header_int headers ATTR_SSDP_NEXTBOOTID else bootid self) \<rparr>"
  by (auto simp: async_ssdp_callback_def available_def split: option.splits)

theorem ssdp_update_only_records_bootid_witness:
  "snd (async_ssdp_callback online mock_connected_entity (update_with_bootids ''1'' ''2'')) = [] \<and>
   available online (fst (async_ssdp_callback online mock_connected_entity
                     (update_with_bootids ''1'' ''2''))) = available online mock_connected_entity \<and>
   fst (async_ssdp_callback online mock_connected_entity (update_with_bootids ''1'' ''2'')) =
     mock_connected_entity\<lparr> bootid := Some 2 \<rparr>"
  using ssdp_update_only_records_bootid
          [of online mock_connected_entity
              "[''NTS'' \<mapsto> ''ssdp:update'', ATTR_SSDP_BOOTID \<mapsto> ''1'',
                ATTR_SSDP_NEXTBOOTID \<mapsto> ''2'']"]
  by (simp add: update_with_bootids_def header_int_simps mock_connected_entity_eq available_def)


text \<open>
  Claim C9, as stated, fails on the scenario of \<open>test_event_subscribe_failure\<close>: the
  subscription request made while the entity is added fails, the entity is disconnected
  when it is removed, and after the removal one subscription request stands against no
  unsubscribe at all.
\<close>

theorem unsubscribes_differ_from_subscribes_counterexample:
  "length (filter is_subscribe
             (snd (lifetime subscribe_failing MOCK_DEVICE_LOCATION no_options []))) = 1 \<and>
   count_list (snd (lifetime subscribe_failing MOCK_DEVICE_LOCATION no_options []))
     Unsubscribe_services = 0 \<and>
   \<not> connected (fst (lifetime subscribe_failing MOCK_DEVICE_LOCATION no_options []))"
  by (simp add: lifetime_def async_added_to_hass_def async_remove_def DlnaDmrEntity_init_def
        run_defs)


text \<open>
  Claim C9, amended. Whatever happens between adding and removing the entity (SSDP
  notifications, updates by the host, service calls, config updates, device events), and
  whatever the outside does at each step, so whether the entity is connected or
  disconnected when it is removed: after the removal the event notifier has been released
  as often as it was acquired, the unregister function of every registered SSDP callback
  has been called, the update listener has been removed, the device's event handler is
  cleared, no device is connected, and the services have been unsubscribed once for every
  subscription request that established a connection (accepted or rejected by the
  device). A request that failed is not unsubscribed; the unsubscribes equal all the
  subscription requests when none of them failed.
\<close>

theorem unload_releases_what_is_held:
  "(let (self', calls) = lifetime world url opts events in
      count_list calls Release_event_notifier = count_list calls Get_event_notifier \<and>
      count_list calls Unregister_ssdp_callback = count_list calls Register_ssdp_callback \<and>
      count_list calls Unsubscribe_services = length (filter is_connection calls) \<and>
      ((\<forall>c\<in>set calls. is_subscribe c \<longrightarrow> is_connection c) \<longrightarrow>
         count_list calls Unsubscribe_services = length (filter is_subscribe calls)) \<and>
      count_list calls Remove_update_listener = count_list calls Add_update_listener \<and>
      \<not> on_event self' \<and> \<not> connected self')"
proof -
  let ?init = "DlnaDmrEntity_init url opts"
  obtain s1 d1 where a: "async_added_to_hass world ?init = (s1, d1)"
    by (cases "async_added_to_hass world ?init")
  obtain s2 d2 where r: "run s1 events = (s2, d2)" by (cases "run s1 events")
  obtain s3 d3 where u: "async_remove s2 = (s3, d3)" by (cases "async_remove s2")
  obtain err c1 where c: "device_connect world url ?init = (err, s1, c1)"
    and d1: "d1 = [Add_update_listener] @ c1 @ [Register_ssdp_callback, Register_ssdp_callback]"
    using a by (auto simp: async_added_to_hass_def DlnaDmrEntity_init_def split: prod.splits)
  have h0: "holding ?init []"
    by (simp add: holding_def DlnaDmrEntity_init_def)
  have hc: "holding s1 c1" using holding_connect [OF h0 c] by simp
  have h1: "holding s1 d1" using hc by (simp add: holding_def d1)
  have h2: "holding s2 (d1 @ d2)" by (rule holding_run [OF h1 r])
  obtain x3 where x: "device_disconnect s2 = (s3, x3)"
    and d3: "d3 = [Remove_update_listener, Unregister_ssdp_callback, Unregister_ssdp_callback] @ x3"
    using u by (auto simp: async_remove_def split: prod.splits)
  have h3: "holding s3 ((d1 @ d2) @ x3)" by (rule holding_disconnect [OF h2 x])
  have off: "\<not> connected s3" using x by (auto simp: device_disconnect_def split: if_splits)
  have bc: "count_list c1 Register_ssdp_callback = 0" "count_list c1 Unregister_ssdp_callback = 0"
    "count_list c1 Add_update_listener = 0" "count_list c1 Remove_update_listener = 0"
    using connect_no_bookkeeping [of _ world url ?init] c
    by (simp_all add: bookkeeping_def)
  have bx: "count_list x3 Register_ssdp_callback = 0" "count_list x3 Unregister_ssdp_callback = 0"
    "count_list x3 Add_update_listener = 0" "count_list x3 Remove_update_listener = 0"
    using disconnect_no_bookkeeping [of _ s2] x
    by (simp_all add: bookkeeping_def)
  have br: "count_list d2 Register_ssdp_callback = 0" "count_list d2 Unregister_ssdp_callback = 0"
    "count_list d2 Add_update_listener = 0" "count_list d2 Remove_update_listener = 0"
    using run_count_bookkeeping [of _ s1 events] r
    by (simp_all add: bookkeeping_def)
  have l: "lifetime world url opts events = (s3, d1 @ d2 @ d3)"
    by (simp add: lifetime_def a r u)
  from h3 off have k:
    "count_list (d1 @ d2 @ x3) Release_event_notifier = count_list (d1 @ d2 @ x3) Get_event_notifier"
    "count_list (d1 @ d2 @ x3) Unsubscribe_services = length (filter is_connection (d1 @ d2 @ x3))"
    "\<not> on_event s3"
    by (simp_all add: holding_def)
  have rel: "count_list (d1 @ d2 @ d3) Release_event_notifier =
             count_list (d1 @ d2 @ d3) Get_event_notifier"
    using k(1) by (simp add: d3)
  have uns: "count_list (d1 @ d2 @ d3) Unsubscribe_services =
             length (filter is_connection (d1 @ d2 @ d3))"
    using k(2) by (simp add: d3)
  have reg: "count_list (d1 @ d2 @ d3) Unregister_ssdp_callback =
             count_list (d1 @ d2 @ d3) Register_ssdp_callback"
    using bc bx br by (simp add: d1 d3)
  have lis: "count_list (d1 @ d2 @ d3) Remove_update_listener =
             count_list (d1 @ d2 @ d3) Add_update_listener"
    using bc bx br by (simp add: d1 d3)
  have raw: "(\<forall>c\<in>set (d1 @ d2 @ d3). is_subscribe c \<longrightarrow> is_connection c) \<longrightarrow>
             count_list (d1 @ d2 @ d3) Unsubscribe_services =
               length (filter is_subscribe (d1 @ d2 @ d3))"
  proof
    assume "\<forall>c\<in>set (d1 @ d2 @ d3). is_subscribe c \<longrightarrow> is_connection c"
    from all_established [OF this] uns
    show "count_list (d1 @ d2 @ d3) Unsubscribe_services =
            length (filter is_subscribe (d1 @ d2 @ d3))"
      by (simp only:)
  qed
  from rel uns reg lis raw k(3) off show ?thesis
    by (simp only: l Let_def prod.case) simp
qed

theorem unload_releases_what_is_held_witness:
  "(let (self', calls) =
      lifetime offline MOCK_DEVICE_LOCATION no_options
        [(online, Ssdp (alive_with_bootid ''1'')), (call_failing, Volume_set),
         (connection_broken, Poll), (subscribe_failing, Ssdp (alive_with_bootid ''2'')),
         (subscribe_rejecting, Ssdp (alive_with_bootid ''3''))]
    in count_list calls Release_event_notifier = 3 \<and>
       count_list calls Get_event_notifier = 3 \<and>
       count_list calls Unregister_ssdp_callback = 2 \<and>
       count_list calls Register_ssdp_callback = 2 \<and>
       count_list calls Unsubscribe_services = 2 \<and>
       length (filter is_connection calls) = 2 \<and>
       length (filter is_subscribe calls) = 3 \<and>
       count_list calls Remove_update_listener = 1 \<and>
       count_list calls Add_update_listener = 1 \<and>
       \<not> on_event self' \<and> \<not> connected self') \<and>
   (let (self', calls) =
      lifetime online MOCK_DEVICE_LOCATION no_options
        [(online, Config_update (no_options\<lparr> opt_listen_port := 1234 \<rparr>))]
    in list_all (\<lambda>c. \<not> is_subscribe c \<or> is_connection c) calls \<and>
       count_list calls Unsubscribe_services = 2 \<and>
       length (filter is_subscribe calls) = 2)"
  using unload_releases_what_is_held
          [of offline MOCK_DEVICE_LOCATION no_options
              "[(online, Ssdp (alive_with_bootid ''1'')), (call_failing, Volume_set),
                (connection_broken, Poll), (subscribe_failing, Ssdp (alive_with_bootid ''2'')),
                (subscribe_rejecting, Ssdp (alive_with_bootid ''3''))]"]
        unload_releases_what_is_held
          [of online MOCK_DEVICE_LOCATION no_options
              "[(online, Config_update (no_options\<lparr> opt_listen_port := 1234 \<rparr>))]"]
  by (simp add: lifetime_def async_added_to_hass_def async_remove_def DlnaDmrEntity_init_def
        run_defs)


section \<open>Errors of the vendor calls\<close>

text \<open>
  No UPnP error leaves a service call or an update of the renderer entity.
\<close>

lemma async_update_never_raises: "fst (async_update world self) = None"
  by (simp add: async_update_def Let_def split: prod.splits option.splits)

lemma async_set_volume_level_never_raises: "fst (async_set_volume_level world self) = None"
  by (simp add: async_set_volume_level_def split: option.splits)


text \<open>
  Claim C4, amended. When a UPnP call made by the DLNA renderer entity raises a UPnP
  error, the error is caught and does not reach the caller. During a service call
  (volume set) the entity is not marked unavailable at once: it is flagged for an
  availability check and stays available, and the update that follows pings the device.
  During an update the device is disconnected (unsubscribed, event notifier released) and
  the entity is unavailable from then on. Not every entity catches: the restart button of
  the air monitor has no handler, and an exception raised by \<open>async_restart\<close> leaves
  \<open>async_press\<close> unchanged, after that single vendor call.
\<close>

theorem upnp_errors_caught_by_dlna_entity_not_by_nam_button:
  "fst (async_set_volume_level world self) = None \<and>
   fst (async_update world self) = None \<and>
   (available world self \<longrightarrow> device_call world = Some raised \<longrightarrow>
      async_set_volume_level world self =
        (None, self\<lparr> check_available := True \<rparr>, [Device_call]) \<and>
      available world (self\<lparr> check_available := True \<rparr>) \<and>
      (device_update later = None \<longrightarrow>
         async_update later (self\<lparr> check_available := True \<rparr>) =
           (None, self\<lparr> check_available := False \<rparr>, [Device_update True]))) \<and>
   (connected self \<longrightarrow> device_update world = Some raised \<longrightarrow>
      async_update world self =
        (None,
         self\<lparr> connected := False, on_event := False, check_available := False \<rparr>,
         [Device_update (poll_availability self \<or> check_available self),
          Unsubscribe_services, Release_event_notifier]) \<and>
      \<not> available later (fst (snd (async_update world self)))) \<and>
   (async_restart (nam (coordinator button)) = Some e \<longrightarrow>
      async_press async_restart button =
        (Inl (Raised e), [Vendor_await (nam (coordinator button)) ''async_restart'' []]))"
proof (intro conjI impI)
  show "fst (async_set_volume_level world self) = None"
    by (rule async_set_volume_level_never_raises)
  show "fst (async_update world self) = None"
    by (rule async_update_never_raises)
next
  assume a: "available world self" and r: "device_call world = Some raised"
  from a r show "async_set_volume_level world self =
      (None, self\<lparr> check_available := True \<rparr>, [Device_call])"
    by (simp add: async_set_volume_level_def)
  from a show "available world (self\<lparr> check_available := True \<rparr>)"
    by (simp add: available_def)
  assume "device_update later = None"
  with a show "async_update later (self\<lparr> check_available := True \<rparr>) =
      (None, self\<lparr> check_available := False \<rparr>, [Device_update True])"
    by (simp add: async_update_def available_def)
next
  assume c: "connected self" and r: "device_update world = Some raised"
  from c r show u: "async_update world self =
      (None,
       self\<lparr> connected := False, on_event := False, check_available := False \<rparr>,
       [Device_update (poll_availability self \<or> check_available self),
        Unsubscribe_services, Release_event_notifier])"
    by (simp add: async_update_def device_disconnect_def)
  show "\<not> available later (fst (snd (async_update world self)))"
    by (simp add: u available_def)
next
  assume "async_restart (nam (coordinator button)) = Some e"
  then show "async_press async_restart button =
      (Inl (Raised e), [Vendor_await (nam (coordinator button)) ''async_restart'' []])"
    by (simp add: async_press_def Let_def)
qed

theorem upnp_errors_caught_by_dlna_entity_not_by_nam_button_witness:
  "available connection_broken mock_entity \<and>
   device_call connection_broken = Some UpnpConnectionError \<and>
   async_set_volume_level connection_broken mock_entity =
     (None, mock_entity\<lparr> check_available := True \<rparr>, [Device_call]) \<and>
   available connection_broken (mock_entity\<lparr> check_available := True \<rparr>) \<and>
   device_update online = None \<and>
   async_update online (mock_entity\<lparr> check_available := True \<rparr>) =
     (None, mock_entity, [Device_update True]) \<and>
   connected mock_entity \<and>
   device_update connection_broken = Some UpnpConnectionError \<and>
   async_update connection_broken mock_entity =
     (None, mock_entity\<lparr> connected := False, on_event := False \<rparr>,
      [Device_update False, Unsubscribe_services, Release_event_notifier]) \<and>
   \<not> available online (fst (snd (async_update connection_broken mock_entity))) \<and>
   unreachable_client (nam (coordinator example_button)) = Some ''ApiError'' \<and>
   async_press unreachable_client example_button =
     (Inl (Raised ''ApiError''), [Vendor_await 1 ''async_restart'' []])"
proof -
  have n: "nam (coordinator example_button) = 1"
    by (simp add: example_button_def NAMButton_init_def example_coordinator_def)
  from upnp_errors_caught_by_dlna_entity_not_by_nam_button
         [where world = connection_broken and self = mock_entity
            and raised = UpnpConnectionError and later = online
            and async_restart = unreachable_client and button = example_button
            and e = "''ApiError''"]
  show ?thesis
    by (simp add: n unreachable_client_def run_defs)
qed

end
